theory Spec2Isabelle
  imports Complex_Main "HOL-Library.Log_Nat" "HOL-Library.Power_By_Squaring"
begin

section \<open>The C++ type double\<close>

text \<open>
  Every number of \<^verbatim>\<open>FinalSignalDist.cpp\<close> is a C++ \<^verbatim>\<open>double\<close> (IEEE 754 binary64).
  A value is a NaN, an infinity with its sign, or a finite value with its sign bit
  (\<open>True\<close> is negative) and its magnitude, so that the two zeros are distinct values.
  The program adds, negates and compares doubles; the sum is the exact rational sum
  rounded to the nearest representable value, ties to even, as the default rounding
  mode does. A comparison with a NaN is false.

  The datatype has more values than there are doubles (a magnitude may be any rational):
  the theorems below hold for all of them, and every concrete input is built from NaN,
  the infinities and rounded literals.
\<close>

datatype double = NaN | Inf bool | Fin bool rat

definition pow2 :: "int \<Rightarrow> rat" where
  "pow2 e = (if 0 \<le> e then 2 ^ nat e else 1 / 2 ^ nat (- e))"

text \<open>The exponent of a positive rational: \<open>pow2 (ilog2 x) \<le> x < pow2 (ilog2 x + 1)\<close>.\<close>

definition ilog2 :: "rat \<Rightarrow> int" where
  "ilog2 x = (if 1 \<le> x then bitlen \<lfloor>x\<rfloor> - 1
              else (let d = bitlen \<lfloor>1 / x\<rfloor> in if x = pow2 (1 - d) then 1 - d else - d))"

definition round_half_even :: "rat \<Rightarrow> int" where
  "round_half_even x = (let f = \<lfloor>x\<rfloor>; r = x - of_int f in
     if r < 1 / 2 then f else if 1 / 2 < r then f + 1 else if even f then f else f + 1)"

text \<open>
  Rounding of a positive magnitude to 53 significant bits, with the smallest unit
  \<open>pow2 (- 1074)\<close> of the subnormal range; \<open>None\<close> is overflow.
\<close>

definition round_mag :: "rat \<Rightarrow> rat option" where
  "round_mag x = (let q = max (ilog2 x - 52) (- 1074);
                      y = of_int (round_half_even (x / pow2 q)) * pow2 q
                  in if pow2 1024 \<le> y then None else Some y)"

text \<open>\<open>round_double zs x\<close>: the double nearest to \<open>x\<close>; \<open>zs\<close> is the sign of an exact zero.\<close>

definition round_double :: "bool \<Rightarrow> rat \<Rightarrow> double" where
  "round_double zs x = (if x = 0 then Fin zs 0
     else (case round_mag \<bar>x\<bar> of None \<Rightarrow> Inf (x < 0) | Some y \<Rightarrow> Fin (x < 0) y))"

definition isnan :: "double \<Rightarrow> bool" where
  "isnan d = (case d of NaN \<Rightarrow> True | _ \<Rightarrow> False)"

definition sval :: "bool \<Rightarrow> rat \<Rightarrow> rat" where
  "sval s x = (if s then - x else x)"

text \<open>A decimal literal of the source (without sign) and the unary minus.\<close>

definition lit :: "rat \<Rightarrow> double" where
  "lit x = round_double False x"

fun dneg :: "double \<Rightarrow> double" where
  "dneg NaN = NaN"
| "dneg (Inf s) = Inf (\<not> s)"
| "dneg (Fin s x) = Fin (\<not> s) x"

fun dadd :: "double \<Rightarrow> double \<Rightarrow> double" where
  "dadd NaN _ = NaN"
| "dadd _ NaN = NaN"
| "dadd (Inf s) (Inf t) = (if s = t then Inf s else NaN)"
| "dadd (Inf s) (Fin _ _) = Inf s"
| "dadd (Fin _ _) (Inf t) = Inf t"
| "dadd (Fin s x) (Fin t y) = round_double (s \<and> t) (sval s x + sval t y)"

fun dlt :: "double \<Rightarrow> double \<Rightarrow> bool" where
  "dlt NaN _ = False"
| "dlt _ NaN = False"
| "dlt (Inf s) (Inf t) = (s \<and> \<not> t)"
| "dlt (Inf s) (Fin _ _) = s"
| "dlt (Fin _ _) (Inf t) = (\<not> t)"
| "dlt (Fin s x) (Fin t y) = (sval s x < sval t y)"

fun dle :: "double \<Rightarrow> double \<Rightarrow> bool" where
  "dle NaN _ = False"
| "dle _ NaN = False"
| "dle (Inf s) (Inf t) = (s \<or> \<not> t)"
| "dle (Inf s) (Fin _ _) = s"
| "dle (Fin _ _) (Inf t) = (\<not> t)"
| "dle (Fin s x) (Fin t y) = (sval s x \<le> sval t y)"

definition dge :: "double \<Rightarrow> double \<Rightarrow> bool" where
  "dge a b = dle b a"

text \<open>\<^verbatim>\<open>numeric_limits<double>::max()\<close>, the largest finite double.\<close>

definition DBL_MAX :: double where
  "DBL_MAX = Fin False ((2 ^ 53 - 1) * 2 ^ 971)"

section \<open>The component classes\<close>

record Amplifier =
  name :: string
  gain_min_1GHz :: double
  gain_max_1GHz :: double
  gain_min_20GHz :: double
  gain_max_20GHz :: double
  P1dB_1GHz :: double
  P1dB_20GHz :: double
  cost :: double

record Switch =
  name :: string
  gain_1GHz_typ :: double
  gain_20GHz_typ :: double
  leakage_1GHz :: double
  leakage_20GHz :: double
  P1dB_input :: double
  cost :: double

record Attenuator =
  name :: string
  gain :: double
  max_attenuation :: double
  P1dB_input :: double
  cost :: double

record PowerDivider =
  name :: string
  gain_1GHz :: double
  gain_20GHz :: double
  cost :: double

text \<open>The constructors; those of \<^verbatim>\<open>Attenuator\<close> and \<^verbatim>\<open>PowerDivider\<close> set the cost to 0.0.\<close>

definition new_Amplifier ::
  "string \<Rightarrow> double \<Rightarrow> double \<Rightarrow> double \<Rightarrow> double \<Rightarrow> double \<Rightarrow> double \<Rightarrow> double \<Rightarrow> Amplifier" where
  "new_Amplifier n g_min_1 g_max_1 g_min_20 g_max_20 p1dB_1 p1dB_20 c =
     \<lparr>Amplifier.name = n, gain_min_1GHz = g_min_1, gain_max_1GHz = g_max_1,
      gain_min_20GHz = g_min_20, gain_max_20GHz = g_max_20,
      P1dB_1GHz = p1dB_1, P1dB_20GHz = p1dB_20, Amplifier.cost = c\<rparr>"

definition new_Switch ::
  "string \<Rightarrow> double \<Rightarrow> double \<Rightarrow> double \<Rightarrow> double \<Rightarrow> double \<Rightarrow> double \<Rightarrow> Switch" where
  "new_Switch n g_1 g_20 leak_1 leak_20 p1dB c =
     \<lparr>Switch.name = n, gain_1GHz_typ = g_1, gain_20GHz_typ = g_20,
      leakage_1GHz = leak_1, leakage_20GHz = leak_20,
      Switch.P1dB_input = p1dB, Switch.cost = c\<rparr>"

definition new_Attenuator :: "string \<Rightarrow> double \<Rightarrow> double \<Rightarrow> double \<Rightarrow> Attenuator" where
  "new_Attenuator n g max_att p1dB =
     \<lparr>Attenuator.name = n, gain = g, max_attenuation = max_att,
      Attenuator.P1dB_input = p1dB, Attenuator.cost = lit 0\<rparr>"

definition new_PowerDivider :: "string \<Rightarrow> double \<Rightarrow> double \<Rightarrow> PowerDivider" where
  "new_PowerDivider n g_1 g_20 =
     \<lparr>PowerDivider.name = n, gain_1GHz = g_1, gain_20GHz = g_20, PowerDivider.cost = lit 0\<rparr>"

text \<open>The four overrides of \<^verbatim>\<open>Component::getCost\<close>.\<close>

definition Amplifier_getCost :: "Amplifier \<Rightarrow> double" where
  "Amplifier_getCost amp = Amplifier.cost amp"

definition Switch_getCost :: "Switch \<Rightarrow> double" where
  "Switch_getCost sw = Switch.cost sw"

definition Attenuator_getCost :: "Attenuator \<Rightarrow> double" where
  "Attenuator_getCost att = Attenuator.cost att"

definition PowerDivider_getCost :: "PowerDivider \<Rightarrow> double" where
  "PowerDivider_getCost dv = PowerDivider.cost dv"

section \<open>ConfigurationFinder::printBestConfiguration\<close>

text \<open>\<^verbatim>\<open>double input_power_dBm = 0;\<close>\<close>

definition input_power_dBm :: double where
  "input_power_dBm = lit 0"

text \<open>
  The local variables that the innermost loop body computes for one combination
  (lines 115 to 131), under their names in the source and in its order.
\<close>

record locals =
  total_cost :: double
  effective_gain_max_1GHz :: double
  effective_gain_max_20GHz :: double
  effective_gain_min_1GHz :: double
  effective_gain_min_20GHz :: double
  max_output_power_1GHz :: double
  max_output_power_20GHz :: double
  min_output_power_1GHz :: double
  min_output_power_20GHz :: double

definition compute_locals :: "Amplifier \<Rightarrow> Switch \<Rightarrow> Attenuator \<Rightarrow> PowerDivider \<Rightarrow> locals" where
  "compute_locals amp sw att dv =
    (let total_cost = dadd (dadd (dadd (Amplifier_getCost amp) (Switch_getCost sw))
                                 (Attenuator_getCost att)) (PowerDivider_getCost dv);
         effective_gain_max_1GHz = dadd (dadd (gain_max_1GHz amp) (gain att)) (gain_1GHz dv);
         effective_gain_max_20GHz = dadd (dadd (gain_max_20GHz amp) (gain att)) (gain_20GHz dv);
         effective_gain_min_1GHz = dadd (dadd (gain_min_1GHz amp) (gain att)) (gain_1GHz dv);
         effective_gain_min_20GHz = dadd (dadd (gain_min_20GHz amp) (gain att)) (gain_20GHz dv);
         max_output_power_1GHz = dadd input_power_dBm effective_gain_max_1GHz;
         max_output_power_20GHz = dadd input_power_dBm effective_gain_max_20GHz;
         min_output_power_1GHz = dadd input_power_dBm effective_gain_min_1GHz;
         min_output_power_20GHz = dadd input_power_dBm effective_gain_min_20GHz
     in \<lparr>total_cost = total_cost,
         effective_gain_max_1GHz = effective_gain_max_1GHz,
         effective_gain_max_20GHz = effective_gain_max_20GHz,
         effective_gain_min_1GHz = effective_gain_min_1GHz,
         effective_gain_min_20GHz = effective_gain_min_20GHz,
         max_output_power_1GHz = max_output_power_1GHz,
         max_output_power_20GHz = max_output_power_20GHz,
         min_output_power_1GHz = min_output_power_1GHz,
         min_output_power_20GHz = min_output_power_20GHz\<rparr>)"

text \<open>The two variables that live across the iterations.\<close>

record search_state =
  min_cost :: double
  best_combination :: string

text \<open>The body of the innermost loop, lines 115 to 151, with its four nested tests.\<close>

definition loop_body ::
  "Amplifier \<Rightarrow> Switch \<Rightarrow> Attenuator \<Rightarrow> PowerDivider \<Rightarrow> search_state \<Rightarrow> search_state" where
  "loop_body amp sw att dv st =
    (let v = compute_locals amp sw att dv in
     if dle (max_output_power_1GHz v) (P1dB_1GHz amp) \<and>
        dle (max_output_power_20GHz v) (P1dB_20GHz amp) \<and>
        dge (gain_1GHz_typ sw) (dneg (lit 1)) \<and> dge (gain_20GHz_typ sw) (dneg (lit 2)) \<and>
        dge (P1dB_1GHz amp) (lit 12) \<and> dge (P1dB_20GHz amp) (lit (105 / 10))
     then
       if dlt (leakage_1GHz sw) (dneg (lit 55)) \<and> dlt (leakage_20GHz sw) (dneg (lit 20))
       then
         if dle (dneg (gain att)) (max_attenuation att)
         then
           if dlt (total_cost v) (min_cost st)
           then \<lparr>min_cost = total_cost v,
                 best_combination =
                   ''Amplifier: '' @ Amplifier.name amp @ '', Switch: '' @ Switch.name sw @
                   '', Attenuator: '' @ Attenuator.name att @
                   '', Power Divider: '' @ PowerDivider.name dv\<rparr>
           else st
         else st
       else st
     else st)"

text \<open>The four nested range-based loops, lines 111 to 155.\<close>

definition search_loops ::
  "Amplifier list \<Rightarrow> Switch list \<Rightarrow> Attenuator list \<Rightarrow> PowerDivider list \<Rightarrow>
   search_state \<Rightarrow> search_state" where
  "search_loops amplifiers switches attenuators dividers =
     fold (\<lambda>amp. fold (\<lambda>sw. fold (\<lambda>att. fold (\<lambda>dv. loop_body amp sw att dv) dividers)
                                   attenuators) switches) amplifiers"

text \<open>
  What is written to \<^verbatim>\<open>cout\<close>: the sequence of the operands of \<^verbatim>\<open><<\<close>. The decimal
  formatting of a double by the stream is not modelled: the item carries the value.
\<close>

datatype out_item = Str string | Dbl double | Endl

definition printBestConfiguration ::
  "Amplifier list \<Rightarrow> Switch list \<Rightarrow> Attenuator list \<Rightarrow> PowerDivider list \<Rightarrow> out_item list" where
  "printBestConfiguration amplifiers switches attenuators dividers =
    (let st = search_loops amplifiers switches attenuators dividers
                \<lparr>min_cost = DBL_MAX, best_combination = []\<rparr>
     in if best_combination st \<noteq> []
        then [Str ''*******Best Configuration:*******'', Endl,
              Str (best_combination st), Str '' with total cost: $'', Dbl (min_cost st), Endl]
        else [Str ''No valid configuration found that meets the specifications.'', Endl])"

section \<open>main\<close>

definition amplifiers_main :: "Amplifier list" where
  "amplifiers_main =
    [new_Amplifier ''Amp-A'' (lit 19) (lit 15) (lit 18) (lit 14) (lit 12) (lit (105 / 10)) (lit 100),
     new_Amplifier ''Amp-B'' (lit 18) (lit 14) (lit 17) (lit 13) (lit 11) (lit (95 / 10)) (lit 120)]"

definition switches_main :: "Switch list" where
  "switches_main =
    [new_Switch ''Switch-1'' (lit (5 / 10)) (lit (4 / 10)) (dneg (lit 60)) (dneg (lit 25)) (lit 15) (lit 50),
     new_Switch ''Switch-2'' (lit (6 / 10)) (lit (5 / 10)) (dneg (lit 58)) (dneg (lit 22)) (lit 14) (lit 60)]"

definition attenuators_main :: "Attenuator list" where
  "attenuators_main =
    [new_Attenuator ''Attenuator-1'' (dneg (lit 3)) (lit 10) (lit 20),
     new_Attenuator ''Attenuator-2'' (dneg (lit 6)) (lit 15) (lit 20)]"

definition dividers_main :: "PowerDivider list" where
  "dividers_main =
    [new_PowerDivider ''Divider-1'' (lit 0) (lit 0),
     new_PowerDivider ''Divider-2'' (lit 0) (lit 0)]"

text \<open>The output of \<^verbatim>\<open>main\<close> and its return value.\<close>

definition main_program :: "out_item list \<times> int" where
  "main_program =
     (printBestConfiguration amplifiers_main switches_main attenuators_main dividers_main, 0)"

section \<open>The search as the specification words it\<close>

text \<open>
  The definitions of this section follow the specification, to be compared with the
  code above: the Cartesian product in its enumeration order, the nine predicates, the
  total cost, and the two texts of the report.
\<close>

type_synonym combination = "Amplifier \<times> Switch \<times> Attenuator \<times> PowerDivider"

definition combinations ::
  "Amplifier list \<Rightarrow> Switch list \<Rightarrow> Attenuator list \<Rightarrow> PowerDivider list \<Rightarrow> combination list" where
  "combinations amplifiers switches attenuators dividers =
     List.product amplifiers (List.product switches (List.product attenuators dividers))"

definition nine_predicates :: "Amplifier \<Rightarrow> Switch \<Rightarrow> Attenuator \<Rightarrow> PowerDivider \<Rightarrow> bool" where
  "nine_predicates amp sw att dv =
    (dle (dadd input_power_dBm (dadd (dadd (gain_max_1GHz amp) (gain att)) (gain_1GHz dv)))
         (P1dB_1GHz amp) \<and>
     dle (dadd input_power_dBm (dadd (dadd (gain_max_20GHz amp) (gain att)) (gain_20GHz dv)))
         (P1dB_20GHz amp) \<and>
     dge (gain_1GHz_typ sw) (dneg (lit 1)) \<and>
     dge (gain_20GHz_typ sw) (dneg (lit 2)) \<and>
     dge (P1dB_1GHz amp) (lit 12) \<and>
     dge (P1dB_20GHz amp) (lit (105 / 10)) \<and>
     dlt (leakage_1GHz sw) (dneg (lit 55)) \<and>
     dlt (leakage_20GHz sw) (dneg (lit 20)) \<and>
     dle (dneg (gain att)) (max_attenuation att))"

definition feasible :: "combination \<Rightarrow> bool" where
  "feasible c = (case c of (amp, sw, att, dv) \<Rightarrow> nine_predicates amp sw att dv)"

definition cost_of :: "combination \<Rightarrow> double" where
  "cost_of c = (case c of (amp, sw, att, dv) \<Rightarrow>
     dadd (dadd (dadd (Amplifier.cost amp) (Switch.cost sw)) (Attenuator.cost att))
          (PowerDivider.cost dv))"

definition describe :: "combination \<Rightarrow> string" where
  "describe c = (case c of (amp, sw, att, dv) \<Rightarrow>
     ''Amplifier: '' @ Amplifier.name amp @ '', Switch: '' @ Switch.name sw @
     '', Attenuator: '' @ Attenuator.name att @ '', Power Divider: '' @ PowerDivider.name dv)"

definition report :: "string \<Rightarrow> double \<Rightarrow> out_item list" where
  "report b m = [Str ''*******Best Configuration:*******'', Endl,
                 Str b, Str '' with total cost: $'', Dbl m, Endl]"

definition no_valid_message :: "out_item list" where
  "no_valid_message = [Str ''No valid configuration found that meets the specifications.'', Endl]"

text \<open>The loop body on a combination, and the search as one loop over the product.\<close>

definition step :: "combination \<Rightarrow> search_state \<Rightarrow> search_state" where
  "step c = (case c of (amp, sw, att, dv) \<Rightarrow> loop_body amp sw att dv)"

text \<open>
  \<open>selected cs m0 pre c\<close>: the combination \<open>c\<close> stands in \<open>cs\<close> after \<open>pre\<close>, is feasible,
  costs less than \<open>m0\<close>, and no feasible combination before it costs as little.
\<close>

definition selected :: "combination list \<Rightarrow> double \<Rightarrow> combination list \<Rightarrow> combination \<Rightarrow> bool" where
  "selected cs m0 pre c =
     (\<exists>post. cs = pre @ c # post \<and> feasible c \<and> dlt (cost_of c) m0 \<and>
        (\<forall>u\<in>set pre. feasible u \<longrightarrow> \<not> dle (cost_of u) (cost_of c)))"

text \<open>Two amplifier catalogs differ only in the two \<open>gain_min\<close> fields.\<close>

definition differ_in_gain_min :: "Amplifier \<Rightarrow> Amplifier \<Rightarrow> bool" where
  "differ_in_gain_min a b =
     (b = a\<lparr>gain_min_1GHz := gain_min_1GHz b, gain_min_20GHz := gain_min_20GHz b\<rparr>)"

text \<open>Two switches, and two attenuators, differ only in the field \<open>P1dB_input\<close>.\<close>

definition switch_differ_in_P1dB_input :: "Switch \<Rightarrow> Switch \<Rightarrow> bool" where
  "switch_differ_in_P1dB_input a b = (b = a\<lparr>Switch.P1dB_input := Switch.P1dB_input b\<rparr>)"

definition attenuator_differ_in_P1dB_input :: "Attenuator \<Rightarrow> Attenuator \<Rightarrow> bool" where
  "attenuator_differ_in_P1dB_input a b =
     (b = a\<lparr>Attenuator.P1dB_input := Attenuator.P1dB_input b\<rparr>)"

section \<open>Example components\<close>

text \<open>Components of \<^verbatim>\<open>main\<close>, by name.\<close>

definition Amp_A :: Amplifier where
  "Amp_A = new_Amplifier ''Amp-A'' (lit 19) (lit 15) (lit 18) (lit 14) (lit 12) (lit (105 / 10)) (lit 100)"

definition Amp_B :: Amplifier where
  "Amp_B = new_Amplifier ''Amp-B'' (lit 18) (lit 14) (lit 17) (lit 13) (lit 11) (lit (95 / 10)) (lit 120)"

definition Switch_1 :: Switch where
  "Switch_1 = new_Switch ''Switch-1'' (lit (5 / 10)) (lit (4 / 10)) (dneg (lit 60)) (dneg (lit 25)) (lit 15) (lit 50)"

definition Attenuator_2 :: Attenuator where
  "Attenuator_2 = new_Attenuator ''Attenuator-2'' (dneg (lit 6)) (lit 15) (lit 20)"

definition Divider_1 :: PowerDivider where
  "Divider_1 = new_PowerDivider ''Divider-1'' (lit 0) (lit 0)"

definition Divider_2 :: PowerDivider where
  "Divider_2 = new_PowerDivider ''Divider-2'' (lit 0) (lit 0)"

text \<open>Amp-A with a NaN cost, with an infinite cost, and with a negative cost and NaN minimum gains.\<close>

definition Amp_NaN :: Amplifier where
  "Amp_NaN = new_Amplifier ''Amp-NaN'' (lit 19) (lit 15) (lit 18) (lit 14) (lit 12) (lit (105 / 10)) NaN"

definition Amp_Inf :: Amplifier where
  "Amp_Inf = new_Amplifier ''Amp-Inf'' (lit 19) (lit 15) (lit 18) (lit 14) (lit 12) (lit (105 / 10)) (Inf False)"

definition Amp_Neg :: Amplifier where
  "Amp_Neg = new_Amplifier ''Amp-Neg'' NaN (lit 15) NaN (lit 14) (lit 12) (lit (105 / 10)) (dneg (lit 100))"

section \<open>Auxiliary lemmas\<close>

subsection \<open>Rounding of integers and of the literals\<close>

lemma pow2_code [code]:
  "pow2 e = (if 0 \<le> e then efficient_funpow (*) 1 2 (nat e)
             else 1 / efficient_funpow (*) 1 2 (nat (- e)))"
  by (simp add: pow2_def power_by_squaring)

lemma round_half_even_of_int: "round_half_even (of_int k) = k"
  by (simp add: round_half_even_def)

lemma bitlen_le_53:
  assumes "0 < n" and "n < 2 ^ 53"
  shows "1 \<le> bitlen n" and "bitlen n \<le> 53"
proof -
  from assms(1) show "1 \<le> bitlen n"
    by (simp add: bitlen_alt_def)
  have "(2::int) ^ nat (bitlen n - 1) \<le> n"
    using bitlen_bounds [OF assms(1)] by simp
  with assms(2) have "(2::int) ^ nat (bitlen n - 1) < 2 ^ 53"
    by linarith
  then have "nat (bitlen n - 1) < 53"
    by (rule power_less_imp_less_exp [rotated]) simp
  then show "bitlen n \<le> 53"
    by linarith
qed

lemma round_mag_of_int:
  assumes "0 < n" and "n < 2 ^ 53"
  shows "round_mag (of_int n) = Some (of_int n)"
proof -
  have b: "1 \<le> bitlen n" "bitlen n \<le> 53"
    using bitlen_le_53 [OF assms] by simp_all
  have one: "(1::rat) \<le> of_int n"
    using assms(1) by simp
  have il: "ilog2 (of_int n) = bitlen n - 1"
    using one by (simp add: ilog2_def)
  define k where "k = nat (53 - bitlen n)"
  have q: "max (ilog2 (of_int n) - 52) (- 1074) = - int k"
    using b by (simp add: il k_def)
  have p: "pow2 (- int k) = 1 / 2 ^ k"
    by (cases "k = 0") (simp_all add: pow2_def)
  have d: "(of_int n :: rat) / pow2 (- int k) = of_int (n * 2 ^ k)"
    by (simp add: p)
  have y: "of_int (round_half_even (of_int n / pow2 (- int k))) * pow2 (- int k) = (of_int n :: rat)"
    unfolding d round_half_even_of_int by (simp add: p)
  have "(of_int n :: rat) < of_int (2 ^ 53)"
    using assms(2) by (simp only: of_int_less_iff)
  also have "\<dots> < pow2 1024"
    by (simp add: pow2_def)
  finally have lt: "\<not> pow2 1024 \<le> (of_int n :: rat)"
    by simp
  show ?thesis
    unfolding round_mag_def Let_def q y using lt by simp
qed

lemma round_double_zero: "round_double zs 0 = Fin zs 0"
  by (simp add: round_double_def)

lemma round_double_numeral:
  "(numeral k :: int) < 2 ^ 53 \<Longrightarrow> round_double zs (numeral k) = Fin False (numeral k)"
  using round_mag_of_int [of "numeral k"] by (simp add: round_double_def)

lemma round_double_neg_numeral:
  "(numeral k :: int) < 2 ^ 53 \<Longrightarrow> round_double zs (- numeral k) = Fin True (numeral k)"
  using round_mag_of_int [of "numeral k"] by (simp add: round_double_def)

lemma round_double_one: "round_double zs 1 = Fin False 1"
  using round_mag_of_int [of 1] by (simp add: round_double_def)

lemma round_double_neg_one: "round_double zs (- 1) = Fin True 1"
  using round_mag_of_int [of 1] by (simp add: round_double_def)

lemmas round_double_int =
  round_double_zero round_double_numeral round_double_neg_numeral round_double_one
  round_double_neg_one

lemma lit_10_5: "lit (105 / 10) = Fin False (21 / 2)"
  by code_simp

lemma lit_9_5: "lit (95 / 10) = Fin False (19 / 2)"
  by code_simp

lemma lit_0_5: "lit (5 / 10) = Fin False (1 / 2)"
  by code_simp

lemma lit_0_4: "lit (4 / 10) = Fin False (3602879701896397 / 9007199254740992)"
  by code_simp

lemma lit_0_6: "lit (6 / 10) = Fin False (5404319552844595 / 9007199254740992)"
  by code_simp


subsection \<open>The order of the comparisons\<close>

lemma dlt_not_nan: "dlt a b \<Longrightarrow> \<not> isnan a \<and> \<not> isnan b"
  by (cases a; cases b) (simp_all add: isnan_def)

lemma dlt_irrefl: "\<not> dlt a a"
  by (cases a) simp_all

lemma dlt_trans: "dlt a b \<Longrightarrow> dlt b c \<Longrightarrow> dlt a c"
  by (cases a; cases b; cases c) auto

lemma dle_dlt_trans: "dle a b \<Longrightarrow> dlt b c \<Longrightarrow> dlt a c"
  by (cases a; cases b; cases c) auto

lemma not_dlt_dle: "\<not> isnan a \<Longrightarrow> \<not> isnan b \<Longrightarrow> \<not> dlt a b \<Longrightarrow> dle b a"
  by (cases a; cases b) (auto simp: isnan_def)

lemma dle_not_dlt: "dle a b \<Longrightarrow> \<not> dlt b a"
  by (cases a; cases b) auto

lemma DBL_MAX_not_nan: "\<not> isnan DBL_MAX"
  by (simp add: DBL_MAX_def isnan_def)

subsection \<open>The loop body and the nested loops\<close>

lemma total_cost_compute_locals:
  "total_cost (compute_locals amp sw att dv) = cost_of (amp, sw, att, dv)"
  by (simp add: compute_locals_def cost_of_def Let_def Amplifier_getCost_def
      Switch_getCost_def Attenuator_getCost_def PowerDivider_getCost_def)

lemma max_output_power_compute_locals:
  "max_output_power_1GHz (compute_locals amp sw att dv) =
     dadd input_power_dBm (dadd (dadd (gain_max_1GHz amp) (gain att)) (gain_1GHz dv))"
  "max_output_power_20GHz (compute_locals amp sw att dv) =
     dadd input_power_dBm (dadd (dadd (gain_max_20GHz amp) (gain att)) (gain_20GHz dv))"
  by (simp_all add: compute_locals_def Let_def)

lemma loop_body_step:
  "loop_body amp sw att dv st =
    (if feasible (amp, sw, att, dv) \<and> dlt (cost_of (amp, sw, att, dv)) (min_cost st)
     then \<lparr>min_cost = cost_of (amp, sw, att, dv), best_combination = describe (amp, sw, att, dv)\<rparr>
     else st)"
  by (auto simp add: loop_body_def feasible_def nine_predicates_def describe_def Let_def
      total_cost_compute_locals max_output_power_compute_locals)

lemma step_eq:
  "step c st = (if feasible c \<and> dlt (cost_of c) (min_cost st)
                then \<lparr>min_cost = cost_of c, best_combination = describe c\<rparr> else st)"
  by (cases c) (simp add: step_def loop_body_step)

lemma fold_product:
  "fold (\<lambda>x. fold (\<lambda>y. f (x, y)) ys) xs = fold f (List.product xs ys)"
proof
  fix s
  show "fold (\<lambda>x. fold (\<lambda>y. f (x, y)) ys) xs s = fold f (List.product xs ys) s"
    by (induction xs arbitrary: s) (simp_all add: fold_map comp_def)
qed

lemma search_loops_combinations:
  "search_loops amplifiers switches attenuators dividers st =
     fold step (combinations amplifiers switches attenuators dividers) st"
proof -
  have "fold step (combinations amplifiers switches attenuators dividers) st =
    fold (\<lambda>amp. fold (\<lambda>sw. fold (\<lambda>att. fold (\<lambda>dv. step (amp, sw, att, dv)) dividers)
                                  attenuators) switches) amplifiers st"
    unfolding combinations_def
    by (simp only: fold_product [symmetric])
  then show ?thesis
    by (simp add: search_loops_def step_def)
qed


subsection \<open>The invariant of the search\<close>

lemma fold_step_inv:
  assumes "\<not> isnan (min_cost st0)"
  shows "\<not> isnan (min_cost (fold step cs st0)) \<and>
         (\<forall>u\<in>set cs. feasible u \<longrightarrow> \<not> dlt (cost_of u) (min_cost (fold step cs st0))) \<and>
         (fold step cs st0 = st0 \<or>
          (\<exists>pre c. selected cs (min_cost st0) pre c \<and>
             fold step cs st0 = \<lparr>min_cost = cost_of c, best_combination = describe c\<rparr>))"
proof (induction cs rule: rev_induct)
  case Nil
  show ?case using assms by simp
next
  case (snoc x cs)
  define st1 where "st1 = fold step cs st0"
  have nan1: "\<not> isnan (min_cost st1)"
    and low1: "\<forall>u\<in>set cs. feasible u \<longrightarrow> \<not> dlt (cost_of u) (min_cost st1)"
    and sel1: "st1 = st0 \<or>
          (\<exists>pre c. selected cs (min_cost st0) pre c \<and>
             st1 = \<lparr>min_cost = cost_of c, best_combination = describe c\<rparr>)"
    using snoc.IH by (simp_all add: st1_def)
  have fold_snoc: "fold step (cs @ [x]) st0 = step x st1"
    by (simp add: st1_def)
  show ?case
  proof (cases "feasible x \<and> dlt (cost_of x) (min_cost st1)")
    case True
    then have fx: "feasible x" and lt: "dlt (cost_of x) (min_cost st1)"
      by simp_all
    have new: "step x st1 = \<lparr>min_cost = cost_of x, best_combination = describe x\<rparr>"
      using True by (simp add: step_eq)
    have a: "\<not> isnan (cost_of x)"
      using dlt_not_nan [OF lt] by simp
    have b: "\<forall>u\<in>set (cs @ [x]). feasible u \<longrightarrow> \<not> dlt (cost_of u) (cost_of x)"
      using low1 lt dlt_trans dlt_irrefl by auto
    have lt0: "dlt (cost_of x) (min_cost st0)"
      using sel1 lt by (auto simp: selected_def dest: dlt_trans)
    have pre: "\<forall>u\<in>set cs. feasible u \<longrightarrow> \<not> dle (cost_of u) (cost_of x)"
      using low1 lt dle_dlt_trans by blast
    have "selected (cs @ [x]) (min_cost st0) cs x"
      using fx lt0 pre by (simp add: selected_def)
    then have "\<exists>pre c. selected (cs @ [x]) (min_cost st0) pre c \<and>
        \<lparr>min_cost = cost_of x, best_combination = describe x\<rparr> =
        \<lparr>min_cost = cost_of c, best_combination = describe c\<rparr>"
      by blast
    with a b show ?thesis
      unfolding fold_snoc new by simp
  next
    case False
    then have same: "step x st1 = st1"
      by (auto simp: step_eq)
    have b: "\<forall>u\<in>set (cs @ [x]). feasible u \<longrightarrow> \<not> dlt (cost_of u) (min_cost st1)"
      using low1 False by auto
    have ext: "selected (cs @ [x]) m pre c" if "selected cs m pre c" for m pre c
      using that by (auto simp: selected_def)
    show ?thesis
      unfolding fold_snoc same using nan1 b sel1 ext by blast
  qed
qed

subsection \<open>The two outputs\<close>

lemma describe_not_empty: "describe c \<noteq> []"
  by (cases c) (simp add: describe_def)

lemma report_not_no_valid: "report b m \<noteq> no_valid_message"
  by (simp add: report_def no_valid_message_def)

lemma report_inject: "report b m = report b' m' \<longleftrightarrow> b = b' \<and> m = m'"
  by (auto simp: report_def)

lemma printBestConfiguration_fold:
  "printBestConfiguration amplifiers switches attenuators dividers =
    (let st = fold step (combinations amplifiers switches attenuators dividers)
                \<lparr>min_cost = DBL_MAX, best_combination = []\<rparr>
     in if best_combination st \<noteq> [] then report (best_combination st) (min_cost st)
        else no_valid_message)"
  by (simp add: printBestConfiguration_def search_loops_combinations report_def
      no_valid_message_def Let_def)

lemma printBestConfiguration_cases:
  "(printBestConfiguration amplifiers switches attenuators dividers = no_valid_message \<and>
    (\<forall>u\<in>set (combinations amplifiers switches attenuators dividers).
       feasible u \<longrightarrow> \<not> dlt (cost_of u) DBL_MAX)) \<or>
   (\<exists>pre c. selected (combinations amplifiers switches attenuators dividers) DBL_MAX pre c \<and>
      (\<forall>u\<in>set (combinations amplifiers switches attenuators dividers).
         feasible u \<longrightarrow> \<not> dlt (cost_of u) (cost_of c)) \<and>
      printBestConfiguration amplifiers switches attenuators dividers =
        report (describe c) (cost_of c))"
proof -
  define cs where "cs = combinations amplifiers switches attenuators dividers"
  define st0 where "st0 = \<lparr>min_cost = DBL_MAX, best_combination = []\<rparr>"
  define st where "st = fold step cs st0"
  have out: "printBestConfiguration amplifiers switches attenuators dividers =
    (if best_combination st \<noteq> [] then report (best_combination st) (min_cost st)
     else no_valid_message)"
    by (simp add: printBestConfiguration_fold cs_def st0_def st_def Let_def)
  have "\<not> isnan (min_cost st0)"
    by (simp add: st0_def DBL_MAX_not_nan)
  from fold_step_inv [OF this, of cs]
  have low: "\<forall>u\<in>set cs. feasible u \<longrightarrow> \<not> dlt (cost_of u) (min_cost st)"
    and sel: "st = st0 \<or> (\<exists>pre c. selected cs (min_cost st0) pre c \<and>
             st = \<lparr>min_cost = cost_of c, best_combination = describe c\<rparr>)"
    by (simp_all add: st_def)
  from sel show ?thesis
  proof
    assume "st = st0"
    then show ?thesis
      using low out by (simp add: st0_def cs_def)
  next
    assume "\<exists>pre c. selected cs (min_cost st0) pre c \<and>
             st = \<lparr>min_cost = cost_of c, best_combination = describe c\<rparr>"
    then obtain pre c where c: "selected cs DBL_MAX pre c"
      and st: "st = \<lparr>min_cost = cost_of c, best_combination = describe c\<rparr>"
      by (auto simp: st0_def)
    have "printBestConfiguration amplifiers switches attenuators dividers =
        report (describe c) (cost_of c)"
      using out st describe_not_empty by simp
    moreover have "\<forall>u\<in>set cs. feasible u \<longrightarrow> \<not> dlt (cost_of u) (cost_of c)"
      using low st by simp
    ultimately show ?thesis
      using c unfolding cs_def by blast
  qed
qed

subsection \<open>Evaluation on the example components\<close>

lemma lit_int:
  "lit 0 = Fin False 0"
  "lit 1 = Fin False 1"
  "(numeral k :: int) < 2 ^ 53 \<Longrightarrow> lit (numeral k) = Fin False (numeral k)"
  by (simp_all add: lit_def round_double_int)

lemmas lit_frac =
  lit_10_5 [simplified] lit_9_5 [simplified] lit_0_5 [simplified]
  lit_0_4 [simplified] lit_0_6 [simplified]

lemma lit_55_0001:
  "lit (550001 / 10000) = Fin False (1935143983322969 / 35184372088832)"
  by code_simp

lemmas arith_eval = lit_int lit_frac round_double_int sval_def dge_def input_power_dBm_def

lemmas component_eval =
  new_Amplifier_def new_Switch_def new_Attenuator_def new_PowerDivider_def
  Amp_A_def Switch_1_def Attenuator_2_def Divider_1_def
  amplifiers_main_def switches_main_def attenuators_main_def dividers_main_def

lemmas search_eval =
  printBestConfiguration_def search_loops_def loop_body_def compute_locals_def Let_def
  Amplifier_getCost_def Switch_getCost_def Attenuator_getCost_def PowerDivider_getCost_def
  DBL_MAX_def report_def no_valid_message_def

lemmas spec_eval = combinations_def feasible_def nine_predicates_def cost_of_def describe_def

subsection \<open>Catalogs that differ in fields the search does not read\<close>

lemma combinations_rel:
  assumes "list_all2 A amplifiers amplifiers'" and "list_all2 S switches switches'"
    and "list_all2 T attenuators attenuators'" and "list_all2 D dividers dividers'"
  shows "list_all2 (rel_prod A (rel_prod S (rel_prod T D)))
           (combinations amplifiers switches attenuators dividers)
           (combinations amplifiers' switches' attenuators' dividers')"
  unfolding combinations_def
  by (intro List.product_transfer [THEN rel_funD, THEN rel_funD] assms)

lemma fold_rel:
  assumes "list_all2 R xs ys" and "\<And>x y. R x y \<Longrightarrow> f x = g y"
  shows "fold f xs s = fold g ys s"
  using assms(1) by (induction arbitrary: s rule: list_all2_induct) (simp_all add: assms(2))

lemma map_rel:
  assumes "list_all2 R xs ys" and "\<And>x y. R x y \<Longrightarrow> f x = f y"
  shows "map f xs = map f ys"
  using assms(1) by (induction rule: list_all2_induct) (simp_all add: assms(2))

lemma step_cong:
  "feasible c = feasible c' \<Longrightarrow> cost_of c = cost_of c' \<Longrightarrow> describe c = describe c' \<Longrightarrow>
   step c = step c'"
  by (rule ext) (simp add: step_eq)

lemma printBestConfiguration_search:
  "search_loops amplifiers switches attenuators dividers \<lparr>min_cost = DBL_MAX, best_combination = []\<rparr> =
   search_loops amplifiers' switches' attenuators' dividers' \<lparr>min_cost = DBL_MAX, best_combination = []\<rparr> \<Longrightarrow>
   printBestConfiguration amplifiers switches attenuators dividers =
   printBestConfiguration amplifiers' switches' attenuators' dividers'"
  by (simp add: printBestConfiguration_def)

section \<open>The claims\<close>

subsection \<open>C1\<close>

text \<open>
  Claim C1, as stated, fails on a NaN cost. With the catalogs (Amp-A, Amp-NaN), (Switch-1),
  (Attenuator-2), (Divider-1) the program reports Amp-A with the total cost 150, the
  combination with Amp-NaN is feasible and its total cost is NaN, and \<^verbatim>\<open>150 <= NaN\<close> is
  false: the reported cost is not less than or equal to the cost of every other feasible
  combination.
\<close>

theorem C1_counterexample:
  "printBestConfiguration [Amp_A, Amp_NaN] [Switch_1] [Attenuator_2] [Divider_1] =
     report (describe (Amp_A, Switch_1, Attenuator_2, Divider_1))
       (cost_of (Amp_A, Switch_1, Attenuator_2, Divider_1)) \<and>
   (Amp_NaN, Switch_1, Attenuator_2, Divider_1) \<in>
     set (combinations [Amp_A, Amp_NaN] [Switch_1] [Attenuator_2] [Divider_1]) \<and>
   feasible (Amp_NaN, Switch_1, Attenuator_2, Divider_1) \<and>
   cost_of (Amp_A, Switch_1, Attenuator_2, Divider_1) = Fin False 150 \<and>
   cost_of (Amp_NaN, Switch_1, Attenuator_2, Divider_1) = NaN \<and>
   \<not> dle (cost_of (Amp_A, Switch_1, Attenuator_2, Divider_1))
          (cost_of (Amp_NaN, Switch_1, Attenuator_2, Divider_1))"
  by (simp add: search_eval spec_eval component_eval Amp_NaN_def arith_eval)

text \<open>
  Claim C1, amended. If the program reports a best configuration, then the line names a
  feasible combination of the Cartesian product, the reported cost is the total cost of
  that combination, and no feasible combination of the product has a total cost strictly
  below it: for every feasible combination, its total cost is NaN or the reported cost is
  less than or equal to it.
\<close>

theorem C1_reported_feasible_and_not_undercut:
  assumes "printBestConfiguration amplifiers switches attenuators dividers = report b m"
  shows "\<exists>c\<in>set (combinations amplifiers switches attenuators dividers).
           feasible c \<and> describe c = b \<and> cost_of c = m \<and>
           (\<forall>u\<in>set (combinations amplifiers switches attenuators dividers).
              feasible u \<longrightarrow>
                \<not> dlt (cost_of u) m \<and> (isnan (cost_of u) \<or> dle m (cost_of u)))"
proof -
  let ?cs = "combinations amplifiers switches attenuators dividers"
  from printBestConfiguration_cases [of amplifiers switches attenuators dividers] assms
  obtain pre c where sel: "selected ?cs DBL_MAX pre c"
    and low: "\<forall>u\<in>set ?cs. feasible u \<longrightarrow> \<not> dlt (cost_of u) (cost_of c)"
    and out: "report b m = report (describe c) (cost_of c)"
    using report_not_no_valid by metis
  from out have b: "describe c = b" and m: "cost_of c = m"
    by (simp_all add: report_inject)
  from sel have mem: "c \<in> set ?cs" and fc: "feasible c" and lt: "dlt m DBL_MAX"
    by (auto simp: selected_def m)
  have nn: "\<not> isnan m"
    using dlt_not_nan [OF lt] by simp
  have "\<not> dlt (cost_of u) m \<and> (isnan (cost_of u) \<or> dle m (cost_of u))"
    if "u \<in> set ?cs" and "feasible u" for u
    using low that nn not_dlt_dle [of "cost_of u" m] by (auto simp: m)
  with mem fc b m show ?thesis
    by blast
qed

text \<open>
  The amended claim C1 on the catalogs of the counterexample: the hypothesis holds there.
\<close>

theorem C1_witness:
  "printBestConfiguration [Amp_A, Amp_NaN] [Switch_1] [Attenuator_2] [Divider_1] =
     report ''Amplifier: Amp-A, Switch: Switch-1, Attenuator: Attenuator-2, Power Divider: Divider-1''
       (Fin False 150) \<and>
   (\<exists>c\<in>set (combinations [Amp_A, Amp_NaN] [Switch_1] [Attenuator_2] [Divider_1]).
      feasible c \<and>
      describe c = ''Amplifier: Amp-A, Switch: Switch-1, Attenuator: Attenuator-2, Power Divider: Divider-1'' \<and>
      cost_of c = Fin False 150 \<and>
      (\<forall>u\<in>set (combinations [Amp_A, Amp_NaN] [Switch_1] [Attenuator_2] [Divider_1]).
         feasible u \<longrightarrow>
           \<not> dlt (cost_of u) (Fin False 150) \<and>
           (isnan (cost_of u) \<or> dle (Fin False 150) (cost_of u))))"
proof -
  have out: "printBestConfiguration [Amp_A, Amp_NaN] [Switch_1] [Attenuator_2] [Divider_1] =
     report ''Amplifier: Amp-A, Switch: Switch-1, Attenuator: Attenuator-2, Power Divider: Divider-1''
       (Fin False 150)"
    by (simp add: search_eval component_eval Amp_NaN_def arith_eval)
  from out C1_reported_feasible_and_not_undercut [OF out] show ?thesis
    by (rule conjI)
qed

subsection \<open>C2\<close>

text \<open>
  Claim C2. The loop body treats a combination as feasible exactly when the nine predicates
  hold: it compares the total cost with the best cost so far if they all hold, and
  leaves the state as it is otherwise. The two leakage comparisons are strict: a switch
  whose \<open>leakage_1GHz\<close> is exactly -55 makes every combination infeasible, while the value
  -55.0001 is below -55 and keeps a feasible combination feasible, all else equal.
\<close>

theorem C2_nine_predicates_gate:
  "loop_body amp sw att dv st =
     (if nine_predicates amp sw att dv
      then (if dlt (total_cost (compute_locals amp sw att dv)) (min_cost st)
            then \<lparr>min_cost = total_cost (compute_locals amp sw att dv),
                  best_combination = describe (amp, sw, att, dv)\<rparr>
            else st)
      else st) \<and>
   \<not> nine_predicates amp (sw\<lparr>leakage_1GHz := dneg (lit 55)\<rparr>) att dv \<and>
   (nine_predicates amp sw att dv \<longrightarrow>
      nine_predicates amp (sw\<lparr>leakage_1GHz := dneg (lit (550001 / 10000))\<rparr>) att dv) \<and>
   dlt (dneg (lit (550001 / 10000))) (dneg (lit 55))"
proof (intro conjI)
  show "loop_body amp sw att dv st =
     (if nine_predicates amp sw att dv
      then (if dlt (total_cost (compute_locals amp sw att dv)) (min_cost st)
            then \<lparr>min_cost = total_cost (compute_locals amp sw att dv),
                  best_combination = describe (amp, sw, att, dv)\<rparr>
            else st)
      else st)"
    by (simp add: loop_body_step feasible_def total_cost_compute_locals)
  show "\<not> nine_predicates amp (sw\<lparr>leakage_1GHz := dneg (lit 55)\<rparr>) att dv"
    by (simp add: nine_predicates_def dlt_irrefl)
  show strict: "dlt (dneg (lit (550001 / 10000))) (dneg (lit 55))"
    by (simp add: lit_55_0001 [simplified] arith_eval)
  show "nine_predicates amp sw att dv \<longrightarrow>
      nine_predicates amp (sw\<lparr>leakage_1GHz := dneg (lit (550001 / 10000))\<rparr>) att dv"
    using strict by (simp add: nine_predicates_def)
qed

text \<open>
  Claim C2 on Amp-A, Switch-1, Attenuator-2 and Divider-1, a feasible combination.
\<close>

theorem C2_witness:
  "nine_predicates Amp_A Switch_1 Attenuator_2 Divider_1 \<and>
   nine_predicates Amp_A (Switch_1\<lparr>leakage_1GHz := dneg (lit (550001 / 10000))\<rparr>)
     Attenuator_2 Divider_1 \<and>
   \<not> nine_predicates Amp_A (Switch_1\<lparr>leakage_1GHz := dneg (lit 55)\<rparr>) Attenuator_2 Divider_1"
proof -
  have feas: "nine_predicates Amp_A Switch_1 Attenuator_2 Divider_1"
    by (simp add: spec_eval component_eval arith_eval)
  note inst = C2_nine_predicates_gate [of Amp_A Switch_1 Attenuator_2 Divider_1]
  from inst feas
  have "nine_predicates Amp_A (Switch_1\<lparr>leakage_1GHz := dneg (lit (550001 / 10000))\<rparr>)
     Attenuator_2 Divider_1"
    by blast
  moreover from inst
  have "\<not> nine_predicates Amp_A (Switch_1\<lparr>leakage_1GHz := dneg (lit 55)\<rparr>) Attenuator_2 Divider_1"
    by blast
  ultimately show ?thesis
    using feas by (intro conjI)
qed

subsection \<open>C3\<close>

text \<open>
  Claim C3. When the program reports a configuration, the reported combination stands at a
  position of the nested enumeration (amplifier outermost, then switch, attenuator and
  power divider) such that no feasible combination before it has a total cost less than
  or equal to the reported one, and no feasible combination after it has a strictly lower
  one: among the feasible combinations of the minimal cost the first one is reported. The
  loop body leaves the state as it is for a combination whose total cost equals the best
  cost so far.
\<close>

theorem C3_first_minimum_wins:
  "(printBestConfiguration amplifiers switches attenuators dividers = report b m \<longrightarrow>
     (\<exists>pre c post.
        combinations amplifiers switches attenuators dividers = pre @ c # post \<and>
        feasible c \<and> describe c = b \<and> cost_of c = m \<and>
        (\<forall>u\<in>set pre. feasible u \<longrightarrow> \<not> dle (cost_of u) m) \<and>
        (\<forall>u\<in>set post. feasible u \<longrightarrow> \<not> dlt (cost_of u) m))) \<and>
   (total_cost (compute_locals amp sw att dv) = min_cost st \<longrightarrow>
      loop_body amp sw att dv st = st)"
proof (intro conjI impI)
  let ?cs = "combinations amplifiers switches attenuators dividers"
  assume "printBestConfiguration amplifiers switches attenuators dividers = report b m"
  with printBestConfiguration_cases [of amplifiers switches attenuators dividers]
  obtain pre c where sel: "selected ?cs DBL_MAX pre c"
    and low: "\<forall>u\<in>set ?cs. feasible u \<longrightarrow> \<not> dlt (cost_of u) (cost_of c)"
    and out: "report b m = report (describe c) (cost_of c)"
    using report_not_no_valid by metis
  from out have b: "describe c = b" and m: "cost_of c = m"
    by (simp_all add: report_inject)
  from sel obtain post where cs: "?cs = pre @ c # post" and fc: "feasible c"
    and pre: "\<forall>u\<in>set pre. feasible u \<longrightarrow> \<not> dle (cost_of u) m"
    by (auto simp: selected_def m)
  from low cs have "\<forall>u\<in>set post. feasible u \<longrightarrow> \<not> dlt (cost_of u) m"
    by (simp add: m)
  with cs fc b m pre
  show "\<exists>pre c post. ?cs = pre @ c # post \<and> feasible c \<and> describe c = b \<and> cost_of c = m \<and>
        (\<forall>u\<in>set pre. feasible u \<longrightarrow> \<not> dle (cost_of u) m) \<and>
        (\<forall>u\<in>set post. feasible u \<longrightarrow> \<not> dlt (cost_of u) m)"
    by blast
next
  assume "total_cost (compute_locals amp sw att dv) = min_cost st"
  then show "loop_body amp sw att dv st = st"
    by (simp add: loop_body_step total_cost_compute_locals [symmetric] dlt_irrefl)
qed

text \<open>
  Claim C3 on the catalogs of \<^verbatim>\<open>main\<close>: Divider-1 and Divider-2 tie at the cost 150 and the
  combination with Divider-1, the earlier one, is reported.
\<close>

theorem C3_witness:
  "printBestConfiguration amplifiers_main switches_main attenuators_main dividers_main =
     report ''Amplifier: Amp-A, Switch: Switch-1, Attenuator: Attenuator-2, Power Divider: Divider-1''
       (Fin False 150) \<and>
   (\<exists>pre c post.
      combinations amplifiers_main switches_main attenuators_main dividers_main = pre @ c # post \<and>
      feasible c \<and>
      describe c = ''Amplifier: Amp-A, Switch: Switch-1, Attenuator: Attenuator-2, Power Divider: Divider-1'' \<and>
      cost_of c = Fin False 150 \<and>
      (\<forall>u\<in>set pre. feasible u \<longrightarrow> \<not> dle (cost_of u) (Fin False 150)) \<and>
      (\<forall>u\<in>set post. feasible u \<longrightarrow> \<not> dlt (cost_of u) (Fin False 150))) \<and>
   feasible (Amp_A, Switch_1, Attenuator_2, Divider_2) \<and>
   cost_of (Amp_A, Switch_1, Attenuator_2, Divider_2) = Fin False 150 \<and>
   loop_body Amp_A Switch_1 Attenuator_2 Divider_2
     \<lparr>min_cost = Fin False 150, best_combination = describe (Amp_A, Switch_1, Attenuator_2, Divider_1)\<rparr> =
     \<lparr>min_cost = Fin False 150, best_combination = describe (Amp_A, Switch_1, Attenuator_2, Divider_1)\<rparr>"
proof -
  have out: "printBestConfiguration amplifiers_main switches_main attenuators_main dividers_main =
     report ''Amplifier: Amp-A, Switch: Switch-1, Attenuator: Attenuator-2, Power Divider: Divider-1''
       (Fin False 150)"
    by (simp add: search_eval component_eval Divider_2_def arith_eval)
  have tie: "feasible (Amp_A, Switch_1, Attenuator_2, Divider_2)"
    "cost_of (Amp_A, Switch_1, Attenuator_2, Divider_2) = Fin False 150"
    by (simp_all add: spec_eval component_eval Divider_2_def arith_eval)
  have eq: "total_cost (compute_locals Amp_A Switch_1 Attenuator_2 Divider_2) =
    min_cost \<lparr>min_cost = Fin False 150,
      best_combination = describe (Amp_A, Switch_1, Attenuator_2, Divider_1)\<rparr>"
    using tie(2) by (simp add: total_cost_compute_locals)
  note inst = C3_first_minimum_wins [of amplifiers_main switches_main attenuators_main dividers_main
      "''Amplifier: Amp-A, Switch: Switch-1, Attenuator: Attenuator-2, Power Divider: Divider-1''"
      "Fin False 150" Amp_A Switch_1 Attenuator_2 Divider_2
      "\<lparr>min_cost = Fin False 150,
        best_combination = describe (Amp_A, Switch_1, Attenuator_2, Divider_1)\<rparr>"]
  from inst out have first: "\<exists>pre c post.
      combinations amplifiers_main switches_main attenuators_main dividers_main = pre @ c # post \<and>
      feasible c \<and>
      describe c = ''Amplifier: Amp-A, Switch: Switch-1, Attenuator: Attenuator-2, Power Divider: Divider-1'' \<and>
      cost_of c = Fin False 150 \<and>
      (\<forall>u\<in>set pre. feasible u \<longrightarrow> \<not> dle (cost_of u) (Fin False 150)) \<and>
      (\<forall>u\<in>set post. feasible u \<longrightarrow> \<not> dlt (cost_of u) (Fin False 150))"
    by blast
  from inst eq have keep: "loop_body Amp_A Switch_1 Attenuator_2 Divider_2
     \<lparr>min_cost = Fin False 150, best_combination = describe (Amp_A, Switch_1, Attenuator_2, Divider_1)\<rparr> =
     \<lparr>min_cost = Fin False 150, best_combination = describe (Amp_A, Switch_1, Attenuator_2, Divider_1)\<rparr>"
    by blast
  from out first tie keep show ?thesis
    by (intro conjI)
qed

subsection \<open>C4\<close>

text \<open>
  Claim C4, as stated, fails on malformed numbers, in both directions. Amp-Neg has the
  negative cost -100 and NaN minimum gains; with Switch-1, Attenuator-2 and Divider-1 the
  program does not print the "No valid configuration" message but reports Amp-Neg with
  the total cost -50. Amp-NaN has a NaN cost; with the same three components no catalog
  is empty and the one combination satisfies the nine predicates, yet the program prints
  the "No valid configuration" message and no line that names the components.
\<close>

theorem C4_counterexample:
  "printBestConfiguration [Amp_Neg] [Switch_1] [Attenuator_2] [Divider_1] =
     report ''Amplifier: Amp-Neg, Switch: Switch-1, Attenuator: Attenuator-2, Power Divider: Divider-1''
       (Fin True 50) \<and>
   printBestConfiguration [Amp_Neg] [Switch_1] [Attenuator_2] [Divider_1] \<noteq> no_valid_message \<and>
   Amplifier.cost Amp_Neg = Fin True 100 \<and>
   gain_min_1GHz Amp_Neg = NaN \<and> gain_min_20GHz Amp_Neg = NaN \<and>
   (Amp_NaN, Switch_1, Attenuator_2, Divider_1) \<in>
     set (combinations [Amp_NaN] [Switch_1] [Attenuator_2] [Divider_1]) \<and>
   feasible (Amp_NaN, Switch_1, Attenuator_2, Divider_1) \<and>
   printBestConfiguration [Amp_NaN] [Switch_1] [Attenuator_2] [Divider_1] = no_valid_message"
  by (simp add: search_eval spec_eval component_eval Amp_Neg_def Amp_NaN_def arith_eval)

text \<open>
  Claim C4, amended. For every input the program ends without an error, with one of two
  outputs. If one of the four catalogs is empty, or no combination satisfies the nine
  predicates, or more generally no combination that satisfies them has a total cost
  strictly below the largest finite double, it prints the fixed message "No valid
  configuration found that meets the specifications.". Otherwise, that is when some
  combination satisfies the nine predicates with a total cost strictly below the largest
  finite double, it prints the banner and one line that names the four components of such
  a combination and its total cost. NaN and negative numbers are not rejected: they are
  added and compared as they are.
\<close>

theorem C4_message_or_report:
  "((\<exists>c\<in>set (combinations amplifiers switches attenuators dividers).
       feasible c \<and> dlt (cost_of c) DBL_MAX) \<longrightarrow>
    (\<exists>c\<in>set (combinations amplifiers switches attenuators dividers).
       feasible c \<and> dlt (cost_of c) DBL_MAX \<and>
       printBestConfiguration amplifiers switches attenuators dividers =
         report (describe c) (cost_of c)) \<and>
    printBestConfiguration amplifiers switches attenuators dividers \<noteq> no_valid_message) \<and>
   (\<not> (\<exists>c\<in>set (combinations amplifiers switches attenuators dividers).
          feasible c \<and> dlt (cost_of c) DBL_MAX) \<longrightarrow>
    printBestConfiguration amplifiers switches attenuators dividers = no_valid_message) \<and>
   (amplifiers = [] \<or> switches = [] \<or> attenuators = [] \<or> dividers = [] \<or>
    (\<forall>c\<in>set (combinations amplifiers switches attenuators dividers). \<not> feasible c) \<longrightarrow>
    printBestConfiguration amplifiers switches attenuators dividers = no_valid_message)"
proof -
  let ?cs = "combinations amplifiers switches attenuators dividers"
  let ?out = "printBestConfiguration amplifiers switches attenuators dividers"
  note cases = printBestConfiguration_cases [of amplifiers switches attenuators dividers]
  have reported: "(\<exists>c\<in>set ?cs. feasible c \<and> dlt (cost_of c) DBL_MAX \<and>
       ?out = report (describe c) (cost_of c)) \<and> ?out \<noteq> no_valid_message"
    if some: "\<exists>c\<in>set ?cs. feasible c \<and> dlt (cost_of c) DBL_MAX"
  proof -
    from cases some obtain pre c where sel: "selected ?cs DBL_MAX pre c"
      and out: "?out = report (describe c) (cost_of c)"
      by blast
    from sel have "c \<in> set ?cs" and "feasible c" and "dlt (cost_of c) DBL_MAX"
      by (auto simp: selected_def)
    with out show ?thesis
      using report_not_no_valid by auto
  qed
  have silent: "?out = no_valid_message"
    if none: "\<not> (\<exists>c\<in>set ?cs. feasible c \<and> dlt (cost_of c) DBL_MAX)"
  proof -
    have "\<not> selected ?cs DBL_MAX pre c" for pre c
      using none by (auto simp: selected_def)
    with cases show ?thesis
      by blast
  qed
  have empty: "?out = no_valid_message"
    if "amplifiers = [] \<or> switches = [] \<or> attenuators = [] \<or> dividers = [] \<or>
      (\<forall>c\<in>set ?cs. \<not> feasible c)"
  proof -
    from that have "\<forall>c\<in>set ?cs. \<not> feasible c"
      by (auto simp: combinations_def)
    then show ?thesis
      using silent by blast
  qed
  show ?thesis
    using reported silent empty by blast
qed

text \<open>
  The amended claim C4 on the catalogs of \<^verbatim>\<open>main\<close>, where a report is printed; with each
  catalog of \<^verbatim>\<open>main\<close> emptied in turn; with Amp-B alone, which no combination makes
  feasible; and with Amp-NaN alone, whose feasible combination has a NaN total cost.
\<close>

theorem C4_witness:
  "(\<exists>c\<in>set (combinations amplifiers_main switches_main attenuators_main dividers_main).
      feasible c \<and> dlt (cost_of c) DBL_MAX \<and>
      printBestConfiguration amplifiers_main switches_main attenuators_main dividers_main =
        report (describe c) (cost_of c)) \<and>
   printBestConfiguration amplifiers_main switches_main attenuators_main dividers_main \<noteq>
     no_valid_message \<and>
   printBestConfiguration [] switches_main attenuators_main dividers_main = no_valid_message \<and>
   printBestConfiguration amplifiers_main [] attenuators_main dividers_main = no_valid_message \<and>
   printBestConfiguration amplifiers_main switches_main [] dividers_main = no_valid_message \<and>
   printBestConfiguration amplifiers_main switches_main attenuators_main [] = no_valid_message \<and>
   printBestConfiguration [Amp_B] switches_main attenuators_main dividers_main = no_valid_message \<and>
   printBestConfiguration [Amp_NaN] [Switch_1] [Attenuator_2] [Divider_1] = no_valid_message"
proof -
  have "(Amp_A, Switch_1, Attenuator_2, Divider_1) \<in>
      set (combinations amplifiers_main switches_main attenuators_main dividers_main) \<and>
    feasible (Amp_A, Switch_1, Attenuator_2, Divider_1) \<and>
    dlt (cost_of (Amp_A, Switch_1, Attenuator_2, Divider_1)) DBL_MAX"
    by (simp add: spec_eval component_eval arith_eval DBL_MAX_def)
  then have some: "\<exists>c\<in>set (combinations amplifiers_main switches_main attenuators_main
      dividers_main). feasible c \<and> dlt (cost_of c) DBL_MAX"
    by blast
  have none: "\<forall>c\<in>set (combinations [Amp_B] switches_main attenuators_main dividers_main).
      \<not> feasible c"
    by (simp add: spec_eval component_eval Amp_B_def arith_eval)
  have nan: "\<not> (\<exists>c\<in>set (combinations [Amp_NaN] [Switch_1] [Attenuator_2] [Divider_1]).
      feasible c \<and> dlt (cost_of c) DBL_MAX)"
    by (simp add: spec_eval component_eval Amp_NaN_def arith_eval)
  show ?thesis
    using C4_message_or_report [of amplifiers_main switches_main attenuators_main dividers_main]
      C4_message_or_report [of "[]" switches_main attenuators_main dividers_main]
      C4_message_or_report [of amplifiers_main "[]" attenuators_main dividers_main]
      C4_message_or_report [of amplifiers_main switches_main "[]" dividers_main]
      C4_message_or_report [of amplifiers_main switches_main attenuators_main "[]"]
      C4_message_or_report [of "[Amp_B]" switches_main attenuators_main dividers_main]
      C4_message_or_report [of "[Amp_NaN]" "[Switch_1]" "[Attenuator_2]" "[Divider_1]"]
      some none nan
    by blast
qed

subsection \<open>C5\<close>

text \<open>
  Claim C5. The derived values of a combination are the sums of the specification, at
  1 GHz and at 20 GHz: the effective gains add the amplifier's gain, the attenuator's gain
  and the divider's gain, the output powers add the input power, which is 0, to the
  effective gains, and the gains of the switch do not enter any of them.
\<close>

theorem C5_derived_metrics:
  "effective_gain_max_1GHz (compute_locals amp sw att dv) =
     dadd (dadd (gain_max_1GHz amp) (gain att)) (gain_1GHz dv) \<and>
   effective_gain_max_20GHz (compute_locals amp sw att dv) =
     dadd (dadd (gain_max_20GHz amp) (gain att)) (gain_20GHz dv) \<and>
   effective_gain_min_1GHz (compute_locals amp sw att dv) =
     dadd (dadd (gain_min_1GHz amp) (gain att)) (gain_1GHz dv) \<and>
   effective_gain_min_20GHz (compute_locals amp sw att dv) =
     dadd (dadd (gain_min_20GHz amp) (gain att)) (gain_20GHz dv) \<and>
   max_output_power_1GHz (compute_locals amp sw att dv) =
     dadd input_power_dBm (effective_gain_max_1GHz (compute_locals amp sw att dv)) \<and>
   max_output_power_20GHz (compute_locals amp sw att dv) =
     dadd input_power_dBm (effective_gain_max_20GHz (compute_locals amp sw att dv)) \<and>
   min_output_power_1GHz (compute_locals amp sw att dv) =
     dadd input_power_dBm (effective_gain_min_1GHz (compute_locals amp sw att dv)) \<and>
   min_output_power_20GHz (compute_locals amp sw att dv) =
     dadd input_power_dBm (effective_gain_min_20GHz (compute_locals amp sw att dv)) \<and>
   input_power_dBm = Fin False 0 \<and>
   compute_locals amp (sw\<lparr>gain_1GHz_typ := g_1, gain_20GHz_typ := g_20\<rparr>) att dv =
     compute_locals amp sw att dv"
  by (simp add: compute_locals_def Let_def input_power_dBm_def lit_int Switch_getCost_def)

subsection \<open>C6\<close>

text \<open>
  Claim C6. The total cost of every combination is the sum of the four costs, whether the
  combination is feasible or not; the nine predicates do not depend on the costs; with
  any four costs, an infeasible combination leaves the state as it is, and a feasible one
  is compared with the best cost so far, which is the only place where the cost decides.
\<close>

theorem C6_cost_and_feasibility_independent:
  "total_cost (compute_locals amp sw att dv) =
     dadd (dadd (dadd (Amplifier.cost amp) (Switch.cost sw)) (Attenuator.cost att))
          (PowerDivider.cost dv) \<and>
   nine_predicates (amp\<lparr>Amplifier.cost := c1\<rparr>) (sw\<lparr>Switch.cost := c2\<rparr>)
       (att\<lparr>Attenuator.cost := c3\<rparr>) (dv\<lparr>PowerDivider.cost := c4\<rparr>) =
     nine_predicates amp sw att dv \<and>
   (\<not> nine_predicates amp sw att dv \<longrightarrow>
      loop_body (amp\<lparr>Amplifier.cost := c1\<rparr>) (sw\<lparr>Switch.cost := c2\<rparr>)
        (att\<lparr>Attenuator.cost := c3\<rparr>) (dv\<lparr>PowerDivider.cost := c4\<rparr>) st = st) \<and>
   (nine_predicates amp sw att dv \<longrightarrow>
      loop_body (amp\<lparr>Amplifier.cost := c1\<rparr>) (sw\<lparr>Switch.cost := c2\<rparr>)
        (att\<lparr>Attenuator.cost := c3\<rparr>) (dv\<lparr>PowerDivider.cost := c4\<rparr>) st =
      (if dlt (dadd (dadd (dadd c1 c2) c3) c4) (min_cost st)
       then \<lparr>min_cost = dadd (dadd (dadd c1 c2) c3) c4,
             best_combination = describe (amp, sw, att, dv)\<rparr>
       else st))"
proof -
  have cost: "total_cost (compute_locals amp sw att dv) =
     dadd (dadd (dadd (Amplifier.cost amp) (Switch.cost sw)) (Attenuator.cost att))
          (PowerDivider.cost dv)"
    by (simp add: total_cost_compute_locals cost_of_def)
  have feas: "nine_predicates (amp\<lparr>Amplifier.cost := c1\<rparr>) (sw\<lparr>Switch.cost := c2\<rparr>)
       (att\<lparr>Attenuator.cost := c3\<rparr>) (dv\<lparr>PowerDivider.cost := c4\<rparr>) =
     nine_predicates amp sw att dv"
    by (simp add: nine_predicates_def)
  have body: "loop_body (amp\<lparr>Amplifier.cost := c1\<rparr>) (sw\<lparr>Switch.cost := c2\<rparr>)
        (att\<lparr>Attenuator.cost := c3\<rparr>) (dv\<lparr>PowerDivider.cost := c4\<rparr>) st =
      (if nine_predicates amp sw att dv \<and> dlt (dadd (dadd (dadd c1 c2) c3) c4) (min_cost st)
       then \<lparr>min_cost = dadd (dadd (dadd c1 c2) c3) c4,
             best_combination = describe (amp, sw, att, dv)\<rparr>
       else st)"
    by (simp add: loop_body_step feasible_def feas cost_of_def describe_def)
  show ?thesis
    using cost feas body by simp
qed

text \<open>
  Claim C6 on Amp-B (infeasible whatever the costs) and on Amp-A with an infinite cost of
  either sign (feasible, and selected only when the cost is below the best so far).
\<close>

theorem C6_witness:
  "\<not> nine_predicates Amp_B Switch_1 Attenuator_2 Divider_1 \<and>
   loop_body (Amp_B\<lparr>Amplifier.cost := Fin False 0\<rparr>) (Switch_1\<lparr>Switch.cost := Fin False 0\<rparr>)
     (Attenuator_2\<lparr>Attenuator.cost := Fin False 0\<rparr>) (Divider_1\<lparr>PowerDivider.cost := Fin False 0\<rparr>)
     \<lparr>min_cost = DBL_MAX, best_combination = []\<rparr> =
     \<lparr>min_cost = DBL_MAX, best_combination = []\<rparr> \<and>
   nine_predicates Amp_A Switch_1 Attenuator_2 Divider_1 \<and>
   loop_body (Amp_A\<lparr>Amplifier.cost := Inf False\<rparr>) (Switch_1\<lparr>Switch.cost := Fin False 0\<rparr>)
     (Attenuator_2\<lparr>Attenuator.cost := Fin False 0\<rparr>) (Divider_1\<lparr>PowerDivider.cost := Fin False 0\<rparr>)
     \<lparr>min_cost = DBL_MAX, best_combination = []\<rparr> =
     \<lparr>min_cost = DBL_MAX, best_combination = []\<rparr> \<and>
   loop_body (Amp_A\<lparr>Amplifier.cost := Inf True\<rparr>) (Switch_1\<lparr>Switch.cost := Fin False 0\<rparr>)
     (Attenuator_2\<lparr>Attenuator.cost := Fin False 0\<rparr>) (Divider_1\<lparr>PowerDivider.cost := Fin False 0\<rparr>)
     \<lparr>min_cost = DBL_MAX, best_combination = []\<rparr> =
     \<lparr>min_cost = Inf True, best_combination = describe (Amp_A, Switch_1, Attenuator_2, Divider_1)\<rparr>"
proof -
  have infeasible: "\<not> nine_predicates Amp_B Switch_1 Attenuator_2 Divider_1"
    by (simp add: spec_eval component_eval Amp_B_def arith_eval)
  have feas: "nine_predicates Amp_A Switch_1 Attenuator_2 Divider_1"
    by (simp add: spec_eval component_eval Amp_B_def arith_eval)
  from infeasible
    C6_cost_and_feasibility_independent [of Amp_B Switch_1 Attenuator_2 Divider_1
      "Fin False 0" "Fin False 0" "Fin False 0" "Fin False 0"
      "\<lparr>min_cost = DBL_MAX, best_combination = []\<rparr>"]
  have one: "loop_body (Amp_B\<lparr>Amplifier.cost := Fin False 0\<rparr>) (Switch_1\<lparr>Switch.cost := Fin False 0\<rparr>)
     (Attenuator_2\<lparr>Attenuator.cost := Fin False 0\<rparr>) (Divider_1\<lparr>PowerDivider.cost := Fin False 0\<rparr>)
     \<lparr>min_cost = DBL_MAX, best_combination = []\<rparr> =
     \<lparr>min_cost = DBL_MAX, best_combination = []\<rparr>"
    by blast
  from feas
    C6_cost_and_feasibility_independent [of Amp_A Switch_1 Attenuator_2 Divider_1
      "Inf False" "Fin False 0" "Fin False 0" "Fin False 0"
      "\<lparr>min_cost = DBL_MAX, best_combination = []\<rparr>"]
  have two: "loop_body (Amp_A\<lparr>Amplifier.cost := Inf False\<rparr>) (Switch_1\<lparr>Switch.cost := Fin False 0\<rparr>)
     (Attenuator_2\<lparr>Attenuator.cost := Fin False 0\<rparr>) (Divider_1\<lparr>PowerDivider.cost := Fin False 0\<rparr>)
     \<lparr>min_cost = DBL_MAX, best_combination = []\<rparr> =
     \<lparr>min_cost = DBL_MAX, best_combination = []\<rparr>"
    by (simp add: DBL_MAX_def)
  from feas
    C6_cost_and_feasibility_independent [of Amp_A Switch_1 Attenuator_2 Divider_1
      "Inf True" "Fin False 0" "Fin False 0" "Fin False 0"
      "\<lparr>min_cost = DBL_MAX, best_combination = []\<rparr>"]
  have three: "loop_body (Amp_A\<lparr>Amplifier.cost := Inf True\<rparr>) (Switch_1\<lparr>Switch.cost := Fin False 0\<rparr>)
     (Attenuator_2\<lparr>Attenuator.cost := Fin False 0\<rparr>) (Divider_1\<lparr>PowerDivider.cost := Fin False 0\<rparr>)
     \<lparr>min_cost = DBL_MAX, best_combination = []\<rparr> =
     \<lparr>min_cost = Inf True, best_combination = describe (Amp_A, Switch_1, Attenuator_2, Divider_1)\<rparr>"
    by (simp add: DBL_MAX_def)
  from infeasible one feas two three show ?thesis
    by (intro conjI)
qed

subsection \<open>C7\<close>

text \<open>
  Claim C7. Two runs on amplifier catalogs that differ only in the fields \<open>gain_min_1GHz\<close>
  and \<open>gain_min_20GHz\<close> take the same feasibility decisions along the enumeration, end
  the search in the same state (the same selected configuration and cost) and print the
  same output.
\<close>

theorem C7_gain_min_noninterference:
  assumes "list_all2 differ_in_gain_min amplifiers amplifiers'"
  shows "map feasible (combinations amplifiers switches attenuators dividers) =
         map feasible (combinations amplifiers' switches attenuators dividers) \<and>
         search_loops amplifiers switches attenuators dividers st =
         search_loops amplifiers' switches attenuators dividers st \<and>
         printBestConfiguration amplifiers switches attenuators dividers =
         printBestConfiguration amplifiers' switches attenuators dividers"
proof -
  let ?R = "rel_prod differ_in_gain_min (rel_prod (=) (rel_prod (=) (=)))"
  have rel: "list_all2 ?R (combinations amplifiers switches attenuators dividers)
     (combinations amplifiers' switches attenuators dividers)"
    by (intro combinations_rel assms) (simp_all add: list.rel_eq)
  have same: "feasible c = feasible c' \<and> cost_of c = cost_of c' \<and> describe c = describe c'"
    if r: "?R c c'" for c c'
  proof -
    obtain a sw att dv where c: "c = (a, sw, att, dv)"
      by (cases c) auto
    obtain b where c': "c' = (b, sw, att, dv)" and ab: "differ_in_gain_min a b"
      using r c by (cases c') auto
    from ab have b: "b = a\<lparr>gain_min_1GHz := gain_min_1GHz b, gain_min_20GHz := gain_min_20GHz b\<rparr>"
      by (simp add: differ_in_gain_min_def)
    show ?thesis
      unfolding c c' by (subst b, simp add: feasible_def nine_predicates_def cost_of_def describe_def)+
  qed
  have feas: "map feasible (combinations amplifiers switches attenuators dividers) =
         map feasible (combinations amplifiers' switches attenuators dividers)"
    using rel by (rule map_rel) (use same in blast)
  have loops: "search_loops amplifiers switches attenuators dividers s =
         search_loops amplifiers' switches attenuators dividers s" for s
    unfolding search_loops_combinations
    using rel by (rule fold_rel) (use same step_cong in blast)
  show ?thesis
    using feas loops printBestConfiguration_search by blast
qed

text \<open>
  Claim C7 on Amp-A and a copy of it with a NaN and an infinite minimum gain.
\<close>

theorem C7_witness:
  "printBestConfiguration [Amp_A] switches_main attenuators_main dividers_main =
   printBestConfiguration [Amp_A\<lparr>gain_min_1GHz := NaN, gain_min_20GHz := Inf True\<rparr>]
     switches_main attenuators_main dividers_main"
proof -
  have "list_all2 differ_in_gain_min [Amp_A]
     [Amp_A\<lparr>gain_min_1GHz := NaN, gain_min_20GHz := Inf True\<rparr>]"
    by (simp add: differ_in_gain_min_def)
  from C7_gain_min_noninterference [OF this] show ?thesis
    by blast
qed

subsection \<open>C8\<close>

text \<open>
  Claim C8. On the catalogs of \<^verbatim>\<open>main\<close> the program reports Amp-A, Switch-1, Attenuator-2
  and Divider-1 with the total cost 150 and returns 0. The product has 16 combinations,
  four of them are feasible, with the costs 150, 150, 160 and 160, and the reported one is
  the first of the two cheapest.
\<close>

theorem C8_reference_scenario:
  "main_program =
     (report ''Amplifier: Amp-A, Switch: Switch-1, Attenuator: Attenuator-2, Power Divider: Divider-1''
        (Fin False 150), 0) \<and>
   length (combinations amplifiers_main switches_main attenuators_main dividers_main) = 16 \<and>
   map (\<lambda>c. (describe c, cost_of c))
     (filter feasible (combinations amplifiers_main switches_main attenuators_main dividers_main)) =
   [(''Amplifier: Amp-A, Switch: Switch-1, Attenuator: Attenuator-2, Power Divider: Divider-1'', Fin False 150),
    (''Amplifier: Amp-A, Switch: Switch-1, Attenuator: Attenuator-2, Power Divider: Divider-2'', Fin False 150),
    (''Amplifier: Amp-A, Switch: Switch-2, Attenuator: Attenuator-2, Power Divider: Divider-1'', Fin False 160),
    (''Amplifier: Amp-A, Switch: Switch-2, Attenuator: Attenuator-2, Power Divider: Divider-2'', Fin False 160)] \<and>
   dle (Fin False 150) (Fin False 160)"
proof (intro conjI)
  show "main_program =
     (report ''Amplifier: Amp-A, Switch: Switch-1, Attenuator: Attenuator-2, Power Divider: Divider-1''
        (Fin False 150), 0)"
    by (simp add: main_program_def search_eval component_eval arith_eval)
  show "length (combinations amplifiers_main switches_main attenuators_main dividers_main) = 16"
    by (simp add: combinations_def component_eval)
  show "map (\<lambda>c. (describe c, cost_of c))
     (filter feasible (combinations amplifiers_main switches_main attenuators_main dividers_main)) =
   [(''Amplifier: Amp-A, Switch: Switch-1, Attenuator: Attenuator-2, Power Divider: Divider-1'', Fin False 150),
    (''Amplifier: Amp-A, Switch: Switch-1, Attenuator: Attenuator-2, Power Divider: Divider-2'', Fin False 150),
    (''Amplifier: Amp-A, Switch: Switch-2, Attenuator: Attenuator-2, Power Divider: Divider-1'', Fin False 160),
    (''Amplifier: Amp-A, Switch: Switch-2, Attenuator: Attenuator-2, Power Divider: Divider-2'', Fin False 160)]"
    by (simp add: spec_eval component_eval arith_eval)
  show "dle (Fin False 150) (Fin False 160)"
    by (simp add: sval_def)
qed

subsection \<open>C9\<close>

text \<open>
  Claim C9. Two runs on catalogs that differ only in the field \<open>P1dB_input\<close> of the switches
  and of the attenuators take the same feasibility decisions along the enumeration, end
  the search in the same state and print the same output.
\<close>

theorem C9_P1dB_input_noninterference:
  assumes "list_all2 switch_differ_in_P1dB_input switches switches'"
    and "list_all2 attenuator_differ_in_P1dB_input attenuators attenuators'"
  shows "map feasible (combinations amplifiers switches attenuators dividers) =
         map feasible (combinations amplifiers switches' attenuators' dividers) \<and>
         search_loops amplifiers switches attenuators dividers st =
         search_loops amplifiers switches' attenuators' dividers st \<and>
         printBestConfiguration amplifiers switches attenuators dividers =
         printBestConfiguration amplifiers switches' attenuators' dividers"
proof -
  let ?R = "rel_prod (=) (rel_prod switch_differ_in_P1dB_input
              (rel_prod attenuator_differ_in_P1dB_input (=)))"
  have rel: "list_all2 ?R (combinations amplifiers switches attenuators dividers)
     (combinations amplifiers switches' attenuators' dividers)"
    by (intro combinations_rel assms) (simp_all add: list.rel_eq)
  have same: "feasible c = feasible c' \<and> cost_of c = cost_of c' \<and> describe c = describe c'"
    if r: "?R c c'" for c c'
  proof -
    obtain a sw att dv where c: "c = (a, sw, att, dv)"
      by (cases c) auto
    obtain sw' att' where c': "c' = (a, sw', att', dv)"
      and s: "switch_differ_in_P1dB_input sw sw'"
      and t: "attenuator_differ_in_P1dB_input att att'"
      using r c by (cases c') auto
    from s have sw': "sw' = sw\<lparr>Switch.P1dB_input := Switch.P1dB_input sw'\<rparr>"
      by (simp add: switch_differ_in_P1dB_input_def)
    from t have att': "att' = att\<lparr>Attenuator.P1dB_input := Attenuator.P1dB_input att'\<rparr>"
      by (simp add: attenuator_differ_in_P1dB_input_def)
    show ?thesis
      unfolding c c'
      by (subst sw', subst att', simp add: feasible_def nine_predicates_def cost_of_def describe_def)+
  qed
  have feas: "map feasible (combinations amplifiers switches attenuators dividers) =
         map feasible (combinations amplifiers switches' attenuators' dividers)"
    using rel by (rule map_rel) (use same in blast)
  have loops: "search_loops amplifiers switches attenuators dividers s =
         search_loops amplifiers switches' attenuators' dividers s" for s
    unfolding search_loops_combinations
    using rel by (rule fold_rel) (use same step_cong in blast)
  show ?thesis
    using feas loops printBestConfiguration_search by blast
qed

text \<open>
  Claim C9 on Switch-1 and Attenuator-2 and copies of them with a NaN and an infinite
  \<open>P1dB_input\<close>.
\<close>

theorem C9_witness:
  "printBestConfiguration amplifiers_main [Switch_1] [Attenuator_2] dividers_main =
   printBestConfiguration amplifiers_main [Switch_1\<lparr>Switch.P1dB_input := NaN\<rparr>]
     [Attenuator_2\<lparr>Attenuator.P1dB_input := Inf True\<rparr>] dividers_main"
proof -
  have "list_all2 switch_differ_in_P1dB_input [Switch_1] [Switch_1\<lparr>Switch.P1dB_input := NaN\<rparr>]"
    and "list_all2 attenuator_differ_in_P1dB_input [Attenuator_2]
      [Attenuator_2\<lparr>Attenuator.P1dB_input := Inf True\<rparr>]"
    by (simp_all add: switch_differ_in_P1dB_input_def attenuator_differ_in_P1dB_input_def)
  from C9_P1dB_input_noninterference [OF this] show ?thesis
    by blast
qed

subsection \<open>C10\<close>

text \<open>
  Claim C10. A configuration is reported if and only if some feasible combination of the
  product has a total cost strictly below \<^verbatim>\<open>numeric_limits<double>::max()\<close>; a reported
  cost is the total cost of a feasible combination and is strictly below that maximum, so
  that a combination whose total cost is NaN or at least the maximum is never selected;
  and when every feasible combination has a
  total cost that is NaN or at least that maximum, the program prints the "No valid
  configuration" message.
\<close>

theorem C10_reported_iff_below_DBL_MAX:
  "((\<exists>b m. printBestConfiguration amplifiers switches attenuators dividers = report b m) \<longleftrightarrow>
    (\<exists>c\<in>set (combinations amplifiers switches attenuators dividers).
       feasible c \<and> dlt (cost_of c) DBL_MAX)) \<and>
   (printBestConfiguration amplifiers switches attenuators dividers = report b m \<longrightarrow>
      dlt m DBL_MAX \<and>
      (\<exists>c\<in>set (combinations amplifiers switches attenuators dividers).
         feasible c \<and> describe c = b \<and> cost_of c = m)) \<and>
   ((\<forall>c\<in>set (combinations amplifiers switches attenuators dividers).
       feasible c \<longrightarrow> isnan (cost_of c) \<or> dle DBL_MAX (cost_of c)) \<longrightarrow>
    printBestConfiguration amplifiers switches attenuators dividers = no_valid_message)"
proof -
  let ?cs = "combinations amplifiers switches attenuators dividers"
  let ?out = "printBestConfiguration amplifiers switches attenuators dividers"
  note cases = printBestConfiguration_cases [of amplifiers switches attenuators dividers]
  have below: "dlt m' DBL_MAX \<and>
      (\<exists>c\<in>set ?cs. feasible c \<and> describe c = b' \<and> cost_of c = m')"
    if "?out = report b' m'" for b' m'
  proof -
    from cases that obtain pre c where sel: "selected ?cs DBL_MAX pre c"
      and out: "report b' m' = report (describe c) (cost_of c)"
      using report_not_no_valid by metis
    from out have "describe c = b'" and "cost_of c = m'"
      by (simp_all add: report_inject)
    with sel show ?thesis
      by (auto simp: selected_def)
  qed
  have reported: "\<exists>b' m'. ?out = report b' m'"
    if "\<exists>c\<in>set ?cs. feasible c \<and> dlt (cost_of c) DBL_MAX"
    using cases that by blast
  have silent: "?out = no_valid_message"
    if "\<forall>c\<in>set ?cs. feasible c \<longrightarrow> isnan (cost_of c) \<or> dle DBL_MAX (cost_of c)"
  proof -
    have "\<not> dlt (cost_of c) DBL_MAX" if "c \<in> set ?cs" and "feasible c" for c
      using \<open>\<forall>c\<in>set ?cs. _\<close> that dlt_not_nan [of "cost_of c" DBL_MAX]
        dle_not_dlt [of DBL_MAX "cost_of c"] by blast
    then have "\<not> (\<exists>b' m'. ?out = report b' m')"
      using below by blast
    with cases show ?thesis
      by blast
  qed
  show ?thesis
    using below reported silent by blast
qed

text \<open>
  Claim C10 on Amp-NaN and Amp-Inf: both combinations are feasible, their total costs are
  NaN and plus infinity, and the program prints the "No valid configuration" message; on
  the catalogs of \<^verbatim>\<open>main\<close> the reported cost 150 is below the maximum.
\<close>

theorem C10_witness:
  "feasible (Amp_NaN, Switch_1, Attenuator_2, Divider_1) \<and>
   cost_of (Amp_NaN, Switch_1, Attenuator_2, Divider_1) = NaN \<and>
   feasible (Amp_Inf, Switch_1, Attenuator_2, Divider_1) \<and>
   cost_of (Amp_Inf, Switch_1, Attenuator_2, Divider_1) = Inf False \<and>
   printBestConfiguration [Amp_NaN, Amp_Inf] [Switch_1] [Attenuator_2] [Divider_1] =
     no_valid_message \<and>
   dlt (Fin False 150) DBL_MAX"
proof -
  have feas: "feasible (Amp_NaN, Switch_1, Attenuator_2, Divider_1)"
    "cost_of (Amp_NaN, Switch_1, Attenuator_2, Divider_1) = NaN"
    "feasible (Amp_Inf, Switch_1, Attenuator_2, Divider_1)"
    "cost_of (Amp_Inf, Switch_1, Attenuator_2, Divider_1) = Inf False"
    by (simp_all add: spec_eval component_eval Amp_NaN_def Amp_Inf_def arith_eval)
  have high: "\<forall>c\<in>set (combinations [Amp_NaN, Amp_Inf] [Switch_1] [Attenuator_2] [Divider_1]).
      feasible c \<longrightarrow> isnan (cost_of c) \<or> dle DBL_MAX (cost_of c)"
    by (simp add: combinations_def feas isnan_def DBL_MAX_def)
  have silent: "printBestConfiguration [Amp_NaN, Amp_Inf] [Switch_1] [Attenuator_2] [Divider_1] =
     no_valid_message"
    using C10_reported_iff_below_DBL_MAX [of "[Amp_NaN, Amp_Inf]" "[Switch_1]" "[Attenuator_2]"
        "[Divider_1]"] high
    by blast
  have out: "printBestConfiguration amplifiers_main switches_main attenuators_main dividers_main =
     report ''Amplifier: Amp-A, Switch: Switch-1, Attenuator: Attenuator-2, Power Divider: Divider-1''
       (Fin False 150)"
    by (simp add: search_eval component_eval Amp_NaN_def Amp_Inf_def arith_eval)
  have below: "dlt (Fin False 150) DBL_MAX"
    using C10_reported_iff_below_DBL_MAX [of amplifiers_main switches_main attenuators_main
        dividers_main] out
    by blast
  from feas silent below show ?thesis
    by (intro conjI)
qed

end
